theory Spec2Isabelle
  imports Complex_Main "HOL-Library.Log_Nat"
begin

section \<open>TagManager (src/main.py and src/SiamakEditor.py, lines 24-51)\<close>

text \<open>
  The class keeps three attributes: the list \<open>tags\<close> and the dictionaries
  \<open>shortcuts\<close> and \<open>tag_colors\<close>. The attribute \<open>available_colors\<close> is assigned once
  in the constructor and never written again, so it is a constant here.
  Tag names, shortcuts and colours are strings in every call the repository makes.
\<close>

record TagManager =
  tags :: "string list"
  shortcuts :: "string \<rightharpoonup> string"
  tag_colors :: "string \<rightharpoonup> string"

definition available_colors :: "string list" where
  "available_colors =
     [''#FF9999'', ''#99FF99'', ''#9999FF'',
      ''#FFFF99'', ''#FF99FF'', ''#99FFFF'',
      ''#FFCC99'', ''#CC99FF'', ''#FF6666'',
      ''#66FF66'', ''#6666FF'']"

definition TagManager_init :: TagManager where
  "TagManager_init = \<lparr>tags = [], shortcuts = Map.empty, tag_colors = Map.empty\<rparr>"

text \<open>
  The optional arguments \<open>shortcut=None\<close> and \<open>color=None\<close> are tested with
  \<open>if shortcut:\<close> and \<open>color if color else ...\<close>: Python's truth value of an
  optional string, false for \<open>None\<close> and for the empty string.
\<close>

fun truthy :: "string option \<Rightarrow> bool" where
  "truthy None = False"
| "truthy (Some s) = (s \<noteq> [])"

text \<open>
  \<open>add_tag\<close> of src/main.py. The palette index is \<open>len(self.tags)\<close> read after
  \<open>self.tags.append(tag)\<close>, so it counts the tag that has just been appended.
\<close>

definition add_tag :: "string \<Rightarrow> string option \<Rightarrow> string option \<Rightarrow> TagManager \<Rightarrow> TagManager" where
  "add_tag tag shortcut color self =
     (if tag \<notin> set (tags self) then
        let self1 = self\<lparr>tags := tags self @ [tag]\<rparr>;
            self2 = (if truthy shortcut
                     then self1\<lparr>shortcuts := (shortcuts self1)(tag \<mapsto> the shortcut)\<rparr>
                     else self1)
        in self2\<lparr>tag_colors := (tag_colors self2)(tag \<mapsto>
               (if truthy color then the color
                else available_colors ! (length (tags self2) mod length available_colors)))\<rparr>
      else self)"

text \<open>
  \<open>add_tag\<close> of src/SiamakEditor.py: the same body, except that a tag added without a
  colour gets the fixed value \<open>#DDDDDD\<close> (the source comments it as "colourless for
  new tags").
\<close>

definition add_tag_SE :: "string \<Rightarrow> string option \<Rightarrow> string option \<Rightarrow> TagManager \<Rightarrow> TagManager" where
  "add_tag_SE tag shortcut color self =
     (if tag \<notin> set (tags self) then
        let self1 = self\<lparr>tags := tags self @ [tag]\<rparr>;
            self2 = (if truthy shortcut
                     then self1\<lparr>shortcuts := (shortcuts self1)(tag \<mapsto> the shortcut)\<rparr>
                     else self1)
        in self2\<lparr>tag_colors := (tag_colors self2)(tag \<mapsto>
               (if truthy color then the color else ''#DDDDDD''))\<rparr>
      else self)"

definition get_tag_color :: "TagManager \<Rightarrow> string \<Rightarrow> string" where
  "get_tag_color self tag = (case tag_colors self tag of None \<Rightarrow> ''#DDDDDD'' | Some c \<Rightarrow> c)"

definition get_tags :: "TagManager \<Rightarrow> string list" where
  "get_tags self = tags self"

definition get_shortcut :: "TagManager \<Rightarrow> string \<Rightarrow> string option" where
  "get_shortcut self tag = shortcuts self tag"

text \<open>
  A sequence of \<open>add_tag\<close> calls, each given as (name, shortcut, color), applied from
  left to right to a manager.
\<close>

fun add_tags :: "(string \<times> string option \<times> string option) list \<Rightarrow> TagManager \<Rightarrow> TagManager" where
  "add_tags [] self = self"
| "add_tags ((tag, shortcut, color) # calls) self = add_tags calls (add_tag tag shortcut color self)"

fun add_tags_SE :: "(string \<times> string option \<times> string option) list \<Rightarrow> TagManager \<Rightarrow> TagManager" where
  "add_tags_SE [] self = self"
| "add_tags_SE ((tag, shortcut, color) # calls) self =
     add_tags_SE calls (add_tag_SE tag shortcut color self)"

text \<open>
  The names of a call sequence, each kept at its first occurrence only: what
  "each distinct name exactly once, in first-insertion order" denotes.
\<close>

fun first_insertion_order :: "'a list \<Rightarrow> 'a list" where
  "first_insertion_order [] = []"
| "first_insertion_order (x # xs) = x # filter (\<lambda>y. y \<noteq> x) (first_insertion_order xs)"

section \<open>FootballVideoAnalyzer (src/main.py, lines 102-473)\<close>

subsection \<open>Values the window holds\<close>

text \<open>
  \<open>json.load\<close> returns, and \<open>json.dump\<close> accepts, a tree of Python values. The model
  keeps the tree itself: a dictionary is an association list with distinct keys, read
  with \<open>map_of\<close>. Non-integer numbers are left out; no path of the source builds one.
\<close>

datatype json =
    JNull
  | JBool bool
  | JInt int
  | JStr string
  | JArr "json list"
  | JObj "(string \<times> json) list"

text \<open>
  The exceptions the modelled code can meet, and the two error kinds the specification
  names (\<open>ValidationError\<close>, \<open>FormatError\<close>). The source has no \<open>raise\<close> statement at
  all: these two are never produced by any function below.
\<close>

datatype error =
    ValidationError
  | FormatError
  | AttributeError
  | OverflowError
  | ZeroDivisionError
  | ValueError

text \<open>
  A Python \<open>float\<close> is an IEEE 754 binary64 value: a finite double, given by the rational
  number it denotes exactly, an infinity or a NaN. A Python number is an \<open>int\<close> or a
  \<open>float\<close>: \<open>self.fps\<close> is the \<open>int\<close> 30 in a new window and the \<open>float\<close> that
  \<open>cap.get(cv2.CAP_PROP_FPS)\<close> returns once a video is open.
\<close>

datatype pyfloat = Finite rat | PInf | NInf | NaN

datatype pynum = PyInt int | PyFloat pyfloat

text \<open>What the code reads from \<open>cv2.VideoCapture(path)\<close>: its two properties.\<close>

record VideoCapture =
  CAP_PROP_FRAME_COUNT :: rat
  CAP_PROP_FPS :: pyfloat

text \<open>
  The attributes of the window that the modelled methods read or write. The widgets
  (labels, slider, list widget, message boxes) are display only and are left out.
  \<open>clip_start\<close> and \<open>clip_end\<close> are attributes that exist only while a marker is pending:
  \<open>hasattr\<close> is \<open>\<noteq> None\<close> and \<open>delattr\<close> is \<open>:= None\<close>. \<open>clips\<close> holds whatever
  \<open>load_data\<close> stored, so it is a JSON value and not always a list. The frame count
  of the capture is the exact value of the double \<open>cap.get\<close> returns.
\<close>

record FootballVideoAnalyzer =
  cap :: "VideoCapture option"
  video_path :: string
  total_frames :: int
  fps :: pynum
  current_frame :: int
  playing :: bool
  clips :: json
  clip_start :: "int option"
  clip_end :: "int option"

text \<open>Python's \<open>int(x)\<close> on a float: truncation towards zero.\<close>

definition py_int :: "rat \<Rightarrow> int" where
  "py_int q = (if 0 \<le> q then \<lfloor>q\<rfloor> else \<lceil>q\<rceil>)"

text \<open>\<open>d.get(key, default)\<close> on a dictionary.\<close>

definition dict_get :: "(string \<times> json) list \<Rightarrow> string \<Rightarrow> json \<Rightarrow> json" where
  "dict_get d key dflt = (case map_of d key of None \<Rightarrow> dflt | Some v \<Rightarrow> v)"

text \<open>
  The attribute values \<open>setup_video_playback\<close> assigns (lines 332-338); no marker is
  pending in a new window.
\<close>

definition setup_video_playback :: FootballVideoAnalyzer where
  "setup_video_playback =
     \<lparr>cap = None, video_path = [], total_frames = 0, fps = PyInt 30, current_frame = 0,
      playing = False, clips = JArr [], clip_start = None, clip_end = None\<rparr>"

subsection \<open>new\_project, open\_video, update\_frame\<close>

text \<open>
  \<open>new_project\<close> (lines 205-219). \<open>self.cap.release()\<close> leaves the attribute \<open>cap\<close> bound to
  the released object; \<open>fps\<close> is not assigned.
\<close>

definition new_project :: "FootballVideoAnalyzer \<Rightarrow> FootballVideoAnalyzer" where
  "new_project self =
     self\<lparr>video_path := [], total_frames := 0, current_frame := 0, playing := False,
          clips := JArr []\<rparr>"

text \<open>
  \<open>update_frame\<close> (lines 313-329). \<open>rd\<close> is the outcome of \<open>self.cap.read()\<close>: \<open>None\<close> when
  it returns \<open>ret = False\<close>, \<open>Some p\<close> when a frame was read and
  \<open>int(self.cap.get(cv2.CAP_PROP_POS_FRAMES))\<close> is then \<open>p\<close>.
\<close>

definition update_frame :: "int option \<Rightarrow> FootballVideoAnalyzer \<Rightarrow> FootballVideoAnalyzer" where
  "update_frame rd self =
     (if cap self \<noteq> None \<and> playing self then
        (case rd of Some p \<Rightarrow> self\<lparr>current_frame := p\<rparr> | None \<Rightarrow> self)
      else self)"

text \<open>
  \<open>open_video\<close> is defined twice in the class. The second definition (lines 384-392)
  replaces the first and is the method the menu calls. \<open>path\<close> is the file name the
  dialog returns, empty when the user cancels; \<open>vc\<close> is the capture opened on it.
\<close>

definition open_video ::
  "string \<Rightarrow> VideoCapture \<Rightarrow> int option \<Rightarrow> FootballVideoAnalyzer \<Rightarrow> FootballVideoAnalyzer" where
  "open_video path vc rd self =
     (if path \<noteq> [] then
        update_frame rd
          (self\<lparr>video_path := path, cap := Some vc,
                total_frames := py_int (CAP_PROP_FRAME_COUNT vc),
                fps := PyFloat (CAP_PROP_FPS vc)\<rparr>)
      else self)"

text \<open>The first, shadowed definition (lines 221-237), which also resets \<open>current_frame\<close>.\<close>

definition open_video_shadowed ::
  "string \<Rightarrow> VideoCapture \<Rightarrow> int option \<Rightarrow> FootballVideoAnalyzer \<Rightarrow> FootballVideoAnalyzer" where
  "open_video_shadowed path vc rd self =
     (if path \<noteq> [] then
        update_frame rd
          (self\<lparr>video_path := path, cap := Some vc,
                total_frames := py_int (CAP_PROP_FRAME_COUNT vc),
                fps := PyFloat (CAP_PROP_FPS vc),
                current_frame := 0\<rparr>)
      else self)"

subsection \<open>save\_data and load\_data\<close>

text \<open>
  \<open>save_data\<close> (lines 258-282): the result is the document handed to \<open>json.dump\<close>, or
  \<open>None\<close> when nothing is written (no video loaded, or the dialog cancelled). Failures
  of the file system are not modelled.
\<close>

definition save_data :: "string \<Rightarrow> FootballVideoAnalyzer \<Rightarrow> json option" where
  "save_data path self =
     (if video_path self = [] then None
      else if path \<noteq> [] then
        Some (JObj [(''video_path'', JStr (video_path self)), (''clips'', clips self)])
      else None)"

text \<open>
  \<open>load_data\<close> (lines 239-256). \<open>data\<close> is the value \<open>json.load\<close> returned. The method
  \<open>update_clips_list\<close> it calls is not in the source files; it is taken to refresh the
  list widget only, and \<open>ucl\<close> is the exception that call raises, if any. Every exception
  inside the \<open>try\<close> block is caught and shown in the "Failed to load data" box, so the
  method itself never raises: the first component of the result is the exception that
  was caught and reported (\<open>None\<close> for the "Project data loaded" box or a cancelled
  dialog), the second the window afterwards. A value that is not a dictionary has no
  method \<open>get\<close>, hence the \<open>AttributeError\<close>.
\<close>

definition load_data ::
  "string \<Rightarrow> json \<Rightarrow> error option \<Rightarrow> FootballVideoAnalyzer
     \<Rightarrow> error option \<times> FootballVideoAnalyzer" where
  "load_data path data ucl self =
     (if path \<noteq> [] then
        (case data of
           JObj d \<Rightarrow> (ucl, self\<lparr>clips := dict_get d ''clips'' (JArr [])\<rparr>)
         | _ \<Rightarrow> (Some AttributeError, self))
      else (None, self))"

text \<open>The project a window stands for: its video path and its clips.\<close>

definition project :: "FootballVideoAnalyzer \<Rightarrow> string \<times> json" where
  "project self = (video_path self, clips self)"

subsection \<open>Clip markers and add\_clip\<close>

text \<open>
  Modelled from the spec: \<open>set_clip_start\<close> and \<open>set_clip_end\<close> are connected to the two
  marker buttons in \<open>setup_video_playback\<close>, but their bodies are not in the source
  files. The specification's \<open>begin_marker(frame)\<close> and \<open>end_marker(frame)\<close> record a
  pending start or end frame, a single slot each, the last write winning.
\<close>

definition set_clip_start :: "int \<Rightarrow> FootballVideoAnalyzer \<Rightarrow> FootballVideoAnalyzer" where
  "set_clip_start frame self = self\<lparr>clip_start := Some frame\<rparr>"

definition set_clip_end :: "int \<Rightarrow> FootballVideoAnalyzer \<Rightarrow> FootballVideoAnalyzer" where
  "set_clip_end frame self = self\<lparr>clip_end := Some frame\<rparr>"

text \<open>The dictionary \<open>add_clip\<close> appends.\<close>

definition clip :: "int \<Rightarrow> int \<Rightarrow> string \<Rightarrow> json" where
  "clip start end_frame tag = JObj [(''start'', JInt start), (''end'', JInt end_frame), (''tag'', JStr tag)]"

text \<open>
  \<open>add_clip\<close> (lines 394-405); \<open>tag_text\<close> is \<open>self.tag_input.text()\<close>. The first component
  of the result is the exception that leaves the method (\<open>None\<close> when it returns), the
  second the window afterwards. The only statement that can raise is
  \<open>self.clips.append\<close>, when \<open>load_data\<close> has stored a value that is not a list.
\<close>

definition add_clip :: "string \<Rightarrow> FootballVideoAnalyzer \<Rightarrow> error option \<times> FootballVideoAnalyzer" where
  "add_clip tag_text self =
     (case (clip_start self, clip_end self) of
        (Some a, Some b) \<Rightarrow>
          (if tag_text \<noteq> [] then
             (case clips self of
                JArr cs \<Rightarrow>
                  (None, self\<lparr>clips := JArr (cs @ [clip a b tag_text]),
                              clip_start := None, clip_end := None\<rparr>)
              | _ \<Rightarrow> (Some AttributeError, self))
           else (None, self))
      | _ \<Rightarrow> (None, self))"

subsection \<open>frames\_to\_time\<close>





text \<open>
  Rounding a rational number to the nearest double, ties to the even significand, as
  IEEE 754 division and CPython's conversions do. \<open>ilog2 x\<close> is the binary exponent of a
  positive \<open>x\<close>: \<open>2^e \<le> x < 2^(e+1)\<close>. The doubles around \<open>x\<close> are the multiples of
  \<open>double_ulp x\<close>, which is \<open>2^(e-52)\<close> for a normal number and \<open>2^(-1074)\<close> in the
  subnormal range. \<open>round_double\<close> is \<open>None\<close> when the rounded value reaches \<open>2^1024\<close>
  (overflow).
\<close>

definition ilog2 :: "rat \<Rightarrow> int" where
  "ilog2 x = (let (a, b) = quotient_of x; k = bitlen a - bitlen b
              in if power_int 2 k \<le> x then k else k - 1)"


definition double_ulp :: "rat \<Rightarrow> rat" where
  "double_ulp x = power_int 2 (max (ilog2 x) (- 1022) - 52)"








subsection \<open>The playback cursor\<close>

text \<open>
  Modelled from the spec: \<open>seek_video\<close>, \<open>next_frame\<close> and \<open>prev_frame\<close> are connected to
  the slider and the frame buttons in \<open>setup_video_playback\<close>, but their bodies are not
  in the source files. The specification's \<open>seek(frame)\<close> sets \<open>current_frame\<close> directly,
  clamped to \<open>[0, total_frames]\<close>; \<open>advance_one_frame\<close> and \<open>retreat_one_frame\<close> move it by
  +1 and -1, clamped to the same interval.
\<close>

text \<open>Clamping \<open>x\<close> to \<open>[0, total_frames]\<close>: not below 0, not above the number of frames.\<close>

definition clamp_frame :: "FootballVideoAnalyzer \<Rightarrow> int \<Rightarrow> int" where
  "clamp_frame self x = (if x < 0 then 0 else if total_frames self < x then total_frames self else x)"

definition seek_video :: "int \<Rightarrow> FootballVideoAnalyzer \<Rightarrow> FootballVideoAnalyzer" where
  "seek_video frame self = self\<lparr>current_frame := clamp_frame self frame\<rparr>"

definition next_frame :: "FootballVideoAnalyzer \<Rightarrow> FootballVideoAnalyzer" where
  "next_frame self = self\<lparr>current_frame := clamp_frame self (current_frame self + 1)\<rparr>"

definition prev_frame :: "FootballVideoAnalyzer \<Rightarrow> FootballVideoAnalyzer" where
  "prev_frame self = self\<lparr>current_frame := clamp_frame self (current_frame self - 1)\<rparr>"

datatype cursor_call = Seek int | Next | Prev

fun cursor_step :: "cursor_call \<Rightarrow> FootballVideoAnalyzer \<Rightarrow> FootballVideoAnalyzer" where
  "cursor_step (Seek frame) self = seek_video frame self"
| "cursor_step Next self = next_frame self"
| "cursor_step Prev self = prev_frame self"

fun cursor_run :: "cursor_call list \<Rightarrow> FootballVideoAnalyzer \<Rightarrow> FootballVideoAnalyzer" where
  "cursor_run [] self = self"
| "cursor_run (c # cs) self = cursor_run cs (cursor_step c self)"

section \<open>Helper lemmas on TagManager\<close>

lemma set_first_insertion_order: "set (first_insertion_order xs) = set xs"
  by (induction xs) auto

lemma distinct_first_insertion_order: "distinct (first_insertion_order xs)"
  by (induction xs) (auto simp: set_first_insertion_order)

lemma filter_first_insertion_order:
  "filter P (first_insertion_order xs) = first_insertion_order (filter P xs)"
proof (induction xs)
  case Nil
  show ?case by simp
next
  case (Cons x xs)
  have swap: "filter P (filter (\<lambda>y. y \<noteq> x) zs) = filter (\<lambda>y. y \<noteq> x) (filter P zs)" for zs
    by (induction zs) auto
  show ?case
  proof (cases "P x")
    case True
    have "filter P (first_insertion_order (x # xs))
            = x # filter P (filter (\<lambda>y. y \<noteq> x) (first_insertion_order xs))"
      using True by simp
    also have "\<dots> = x # filter (\<lambda>y. y \<noteq> x) (filter P (first_insertion_order xs))"
      by (simp only: swap)
    also have "\<dots> = x # filter (\<lambda>y. y \<noteq> x) (first_insertion_order (filter P xs))"
      by (simp only: Cons.IH)
    also have "\<dots> = first_insertion_order (filter P (x # xs))"
      using True by simp
    finally show ?thesis .
  next
    case False
    have drop: "filter P (filter (\<lambda>y. y \<noteq> x) zs) = filter P zs" for zs
      using False by (induction zs) auto
    have "filter P (first_insertion_order (x # xs))
            = filter P (filter (\<lambda>y. y \<noteq> x) (first_insertion_order xs))"
      using False by simp
    also have "\<dots> = filter P (first_insertion_order xs)"
      by (simp only: drop)
    also have "\<dots> = first_insertion_order (filter P (x # xs))"
      using False by (simp add: Cons.IH)
    finally show ?thesis .
  qed
qed

lemma add_tag_present: "tag \<in> set (tags self) \<Longrightarrow> add_tag tag shortcut color self = self"
  by (simp add: add_tag_def)

lemma tags_add_tag_new:
  "tag \<notin> set (tags self) \<Longrightarrow> tags (add_tag tag shortcut color self) = tags self @ [tag]"
  by (simp add: add_tag_def Let_def)

lemma tags_add_tags:
  "tags (add_tags calls self) =
     tags self @ first_insertion_order (filter (\<lambda>n. n \<notin> set (tags self)) (map fst calls))"
proof (induction calls arbitrary: self)
  case Nil
  show ?case by simp
next
  case (Cons c calls)
  obtain tag shortcut color where c: "c = (tag, shortcut, color)"
    by (cases c) auto
  show ?case
  proof (cases "tag \<in> set (tags self)")
    case True
    then show ?thesis
      using Cons [of self] by (simp add: c add_tag_present)
  next
    case False
    have eq: "filter (\<lambda>n. n \<noteq> tag \<and> n \<notin> set (tags self)) zs
                = filter (\<lambda>y. y \<noteq> tag) (filter (\<lambda>n. n \<notin> set (tags self)) zs)" for zs
      by (induction zs) auto
    from False show ?thesis
      using Cons [of "add_tag tag shortcut color self"]
      by (simp add: c tags_add_tag_new filter_first_insertion_order eq)
  qed
qed

section \<open>Properties of TagManager\<close>

lemma add_tags_keeps_registered:
  "tag \<in> set (tags self) \<Longrightarrow>
     shortcuts (add_tags calls self) tag = shortcuts self tag
     \<and> tag_colors (add_tags calls self) tag = tag_colors self tag"
proof (induction calls arbitrary: self)
  case Nil
  show ?case by simp
next
  case (Cons c calls)
  obtain t s col where c: "c = (t, s, col)"
    by (cases c) auto
  let ?self' = "add_tag t s col self"
  have mem: "tag \<in> set (tags ?self')"
    using Cons.prems by (simp add: add_tag_def Let_def)
  have same: "shortcuts ?self' tag = shortcuts self tag \<and> tag_colors ?self' tag = tag_colors self tag"
    using Cons.prems by (auto simp: add_tag_def Let_def)
  from Cons.IH [OF mem] same show ?case
    by (simp add: c)
qed

text \<open>
  C4. For every sequence of \<open>add_tag\<close> calls on a fresh manager, \<open>get_tags\<close> returns
  each distinct name exactly once, in the order of first insertion. A call whose name is
  already registered returns the manager unchanged, and no later sequence of calls changes
  the shortcut or the colour registered for that name.
\<close>

theorem add_tag_first_insertion_order:
  "get_tags (add_tags calls TagManager_init) = first_insertion_order (map fst calls)
   \<and> distinct (get_tags (add_tags calls TagManager_init))
   \<and> set (get_tags (add_tags calls TagManager_init)) = set (map fst calls)
   \<and> (tag \<in> set (get_tags self) \<longrightarrow>
        add_tag tag shortcut color self = self
        \<and> get_shortcut (add_tags calls self) tag = get_shortcut self tag
        \<and> tag_colors (add_tags calls self) tag = tag_colors self tag)"
proof -
  have order: "get_tags (add_tags calls TagManager_init) = first_insertion_order (map fst calls)"
    using tags_add_tags [of calls TagManager_init]
    by (simp add: get_tags_def TagManager_init_def)
  have noop: "add_tag tag shortcut color self = self" if "tag \<in> set (get_tags self)"
    using that by (simp add: get_tags_def add_tag_present)
  have keep: "get_shortcut (add_tags calls self) tag = get_shortcut self tag
              \<and> tag_colors (add_tags calls self) tag = tag_colors self tag"
    if "tag \<in> set (get_tags self)"
    using that add_tags_keeps_registered [of tag self calls]
    by (simp add: get_tags_def get_shortcut_def)
  from order noop keep show ?thesis
    by (simp add: distinct_first_insertion_order set_first_insertion_order)
qed

text \<open>The statement of C4 at a concrete sequence with a repeated name.\<close>

theorem add_tag_first_insertion_order_witness:
  "''Goal'' \<in> set (get_tags (add_tag ''Goal'' (Some ''Ctrl+5'') None TagManager_init))
   \<and> get_tags (add_tags [(''Goal'', Some ''Ctrl+5'', None), (''SetPiece'', None, None),
                          (''Goal'', Some ''Ctrl+9'', Some ''#000000'')] TagManager_init)
       = [''Goal'', ''SetPiece'']
   \<and> add_tag ''Goal'' (Some ''Ctrl+9'') (Some ''#000000'')
         (add_tag ''Goal'' (Some ''Ctrl+5'') None TagManager_init)
       = add_tag ''Goal'' (Some ''Ctrl+5'') None TagManager_init
   \<and> get_shortcut (add_tags [(''Goal'', Some ''Ctrl+9'', Some ''#000000'')]
         (add_tag ''Goal'' (Some ''Ctrl+5'') None TagManager_init)) ''Goal'' = Some ''Ctrl+5''"
proof -
  have h: "''Goal'' \<in> set (get_tags (add_tag ''Goal'' (Some ''Ctrl+5'') None TagManager_init))"
    by (simp add: get_tags_def add_tag_def TagManager_init_def Let_def)
  have sc: "get_shortcut (add_tag ''Goal'' (Some ''Ctrl+5'') None TagManager_init) ''Goal''
              = Some ''Ctrl+5''"
    by (simp add: get_shortcut_def add_tag_def TagManager_init_def Let_def)
  have a: "get_tags (add_tags [(''Goal'', Some ''Ctrl+5'', None), (''SetPiece'', None, None),
                          (''Goal'', Some ''Ctrl+9'', Some ''#000000'')] TagManager_init)
       = [''Goal'', ''SetPiece'']"
    using add_tag_first_insertion_order
      [of "[(''Goal'', Some ''Ctrl+5'', None), (''SetPiece'', None, None),
            (''Goal'', Some ''Ctrl+9'', Some ''#000000'')]" "''x''" TagManager_init None None]
    by simp
  have b: "add_tag ''Goal'' (Some ''Ctrl+9'') (Some ''#000000'')
         (add_tag ''Goal'' (Some ''Ctrl+5'') None TagManager_init)
       = add_tag ''Goal'' (Some ''Ctrl+5'') None TagManager_init
     \<and> get_shortcut (add_tags [(''Goal'', Some ''Ctrl+9'', Some ''#000000'')]
         (add_tag ''Goal'' (Some ''Ctrl+5'') None TagManager_init)) ''Goal''
       = get_shortcut (add_tag ''Goal'' (Some ''Ctrl+5'') None TagManager_init) ''Goal''"
    using h add_tag_first_insertion_order
      [of "[(''Goal'', Some ''Ctrl+9'', Some ''#000000'')]" "''Goal''"
          "add_tag ''Goal'' (Some ''Ctrl+5'') None TagManager_init"
          "Some ''Ctrl+9''" "Some ''#000000''"]
    by simp
  from h a b sc show ?thesis by simp
qed

lemma palette_size: "length available_colors = 11"
  by (simp add: available_colors_def)

text \<open>
  C5 (amended). In src/main.py a new tag added without a colour gets the palette entry at
  index (number of tags after the new one has been appended) modulo the palette size, that
  is (previous count + 1) mod 11; the index is always inside the palette, so every tag gets
  a defined colour. In src/SiamakEditor.py the same call assigns the fixed colour
  \<open>#DDDDDD\<close>, which is not a palette entry.
\<close>

theorem add_tag_palette_color:
  "tag \<notin> set (tags self) \<and> \<not> truthy color \<longrightarrow>
     tag_colors (add_tag tag shortcut color self) tag
       = Some (available_colors ! (length (tags (add_tag tag shortcut color self))
                                     mod length available_colors))
     \<and> length (tags (add_tag tag shortcut color self)) = length (tags self) + 1
     \<and> length (tags (add_tag tag shortcut color self)) mod length available_colors
         < length available_colors
     \<and> get_tag_color (add_tag tag shortcut color self) tag \<in> set available_colors
     \<and> tag_colors (add_tag_SE tag shortcut color self) tag = Some ''#DDDDDD''"
proof (intro impI)
  assume h: "tag \<notin> set (tags self) \<and> \<not> truthy color"
  have len: "length (tags (add_tag tag shortcut color self)) = length (tags self) + 1"
    using h by (simp add: tags_add_tag_new)
  have lt: "length (tags (add_tag tag shortcut color self)) mod length available_colors
              < length available_colors"
    by (simp add: palette_size)
  have col: "tag_colors (add_tag tag shortcut color self) tag
       = Some (available_colors ! (length (tags (add_tag tag shortcut color self))
                                     mod length available_colors))"
    using h by (simp add: add_tag_def Let_def)
  have mem: "get_tag_color (add_tag tag shortcut color self) tag \<in> set available_colors"
    using lt by (simp add: get_tag_color_def col del: length_greater_0_conv)
  have se: "tag_colors (add_tag_SE tag shortcut color self) tag = Some ''#DDDDDD''"
    using h by (simp add: add_tag_SE_def Let_def)
  from len lt col mem se show "tag_colors (add_tag tag shortcut color self) tag
       = Some (available_colors ! (length (tags (add_tag tag shortcut color self))
                                     mod length available_colors))
     \<and> length (tags (add_tag tag shortcut color self)) = length (tags self) + 1
     \<and> length (tags (add_tag tag shortcut color self)) mod length available_colors
         < length available_colors
     \<and> get_tag_color (add_tag tag shortcut color self) tag \<in> set available_colors
     \<and> tag_colors (add_tag_SE tag shortcut color self) tag = Some ''#DDDDDD''"
    by blast
qed

text \<open>The statement of C5 at the first tag of a fresh manager.\<close>

theorem add_tag_palette_color_witness:
  "''Goal'' \<notin> set (tags TagManager_init) \<and> \<not> truthy None
   \<and> tag_colors (add_tag ''Goal'' (Some ''Ctrl+5'') None TagManager_init) ''Goal''
       = Some ''#99FF99''
   \<and> tag_colors (add_tag_SE ''Goal'' (Some ''Ctrl+5'') None TagManager_init) ''Goal''
       = Some ''#DDDDDD''"
proof -
  have h: "''Goal'' \<notin> set (tags TagManager_init) \<and> \<not> truthy None"
    by (simp add: TagManager_init_def)
  have len: "length (tags (add_tag ''Goal'' (Some ''Ctrl+5'') None TagManager_init)) = 1"
    by (simp add: add_tag_def TagManager_init_def Let_def)
  have pal: "available_colors ! (1 mod length available_colors) = ''#99FF99''"
    by (simp add: available_colors_def)
  from h add_tag_palette_color [of "''Goal''" TagManager_init None "Some ''Ctrl+5''"]
  have "tag_colors (add_tag ''Goal'' (Some ''Ctrl+5'') None TagManager_init) ''Goal''
       = Some (available_colors ! (length (tags (add_tag ''Goal'' (Some ''Ctrl+5'') None TagManager_init))
                                     mod length available_colors))
     \<and> tag_colors (add_tag_SE ''Goal'' (Some ''Ctrl+5'') None TagManager_init) ''Goal''
       = Some ''#DDDDDD''"
    by blast
  with h len pal show ?thesis by simp
qed

text \<open>
  C5 as stated fails for the \<open>add_tag\<close> of src/SiamakEditor.py: the colour of a new tag
  is not drawn from the palette.
\<close>

theorem add_tag_palette_counterexample:
  "tag_colors (add_tag_SE ''Goal'' None None TagManager_init) ''Goal'' = Some ''#DDDDDD''
   \<and> ''#DDDDDD'' \<notin> set available_colors"
  by (simp add: add_tag_SE_def TagManager_init_def Let_def available_colors_def)

lemma add_tag_sim:
  assumes "tags a = tags b" "shortcuts a = shortcuts b" "dom (tag_colors a) = dom (tag_colors b)"
  shows "tags (add_tag t s c a) = tags (add_tag_SE t s c b)
         \<and> shortcuts (add_tag t s c a) = shortcuts (add_tag_SE t s c b)
         \<and> dom (tag_colors (add_tag t s c a)) = dom (tag_colors (add_tag_SE t s c b))"
  using assms by (simp add: add_tag_def add_tag_SE_def Let_def)

lemma add_tags_sim:
  "tags a = tags b \<Longrightarrow> shortcuts a = shortcuts b \<Longrightarrow> dom (tag_colors a) = dom (tag_colors b) \<Longrightarrow>
     tags (add_tags calls a) = tags (add_tags_SE calls b)
     \<and> shortcuts (add_tags calls a) = shortcuts (add_tags_SE calls b)
     \<and> dom (tag_colors (add_tags calls a)) = dom (tag_colors (add_tags_SE calls b))"
proof (induction calls arbitrary: a b)
  case Nil
  then show ?case by simp
next
  case (Cons c calls)
  obtain t s col where c: "c = (t, s, col)"
    by (cases c) auto
  from add_tag_sim [OF Cons.prems, of t s col]
  have "tags (add_tags calls (add_tag t s col a)) = tags (add_tags_SE calls (add_tag_SE t s col b))
     \<and> shortcuts (add_tags calls (add_tag t s col a)) = shortcuts (add_tags_SE calls (add_tag_SE t s col b))
     \<and> dom (tag_colors (add_tags calls (add_tag t s col a)))
         = dom (tag_colors (add_tags_SE calls (add_tag_SE t s col b)))"
    by (intro Cons.IH) simp_all
  then show ?case by (simp add: c)
qed

text \<open>
  C10 (amended). For every sequence of \<open>add_tag\<close> calls, the two implementations produce
  the same tag list, the same shortcut map and colour maps with the same keys. The colours
  themselves are not claimed equal.
\<close>

theorem TagManager_implementations_agree_up_to_color:
  "tags (add_tags calls TagManager_init) = tags (add_tags_SE calls TagManager_init)
   \<and> shortcuts (add_tags calls TagManager_init) = shortcuts (add_tags_SE calls TagManager_init)
   \<and> dom (tag_colors (add_tags calls TagManager_init))
       = dom (tag_colors (add_tags_SE calls TagManager_init))"
  by (rule add_tags_sim) simp_all

text \<open>
  C10 as stated fails at the single call \<open>add_tag("Goal")\<close>: src/main.py gives the tag
  the palette colour \<open>#99FF99\<close>, src/SiamakEditor.py gives it \<open>#DDDDDD\<close>.
\<close>

theorem TagManager_implementations_counterexample:
  "tag_colors (add_tags [(''Goal'', None, None)] TagManager_init) ''Goal'' = Some ''#99FF99''
   \<and> tag_colors (add_tags_SE [(''Goal'', None, None)] TagManager_init) ''Goal'' = Some ''#DDDDDD''
   \<and> tag_colors (add_tags [(''Goal'', None, None)] TagManager_init)
       \<noteq> tag_colors (add_tags_SE [(''Goal'', None, None)] TagManager_init)"
proof -
  have a: "tag_colors (add_tags [(''Goal'', None, None)] TagManager_init) ''Goal'' = Some ''#99FF99''"
    by (simp add: add_tag_def TagManager_init_def Let_def available_colors_def)
  have b: "tag_colors (add_tags_SE [(''Goal'', None, None)] TagManager_init) ''Goal'' = Some ''#DDDDDD''"
    by (simp add: add_tag_SE_def TagManager_init_def Let_def)
  have c: "tag_colors (add_tags [(''Goal'', None, None)] TagManager_init)
       \<noteq> tag_colors (add_tags_SE [(''Goal'', None, None)] TagManager_init)"
  proof
    assume "tag_colors (add_tags [(''Goal'', None, None)] TagManager_init)
       = tag_colors (add_tags_SE [(''Goal'', None, None)] TagManager_init)"
    then have "tag_colors (add_tags [(''Goal'', None, None)] TagManager_init) ''Goal''
       = tag_colors (add_tags_SE [(''Goal'', None, None)] TagManager_init) ''Goal''"
      by (rule fun_cong)
    then show False
      by (simp only: a b) simp
  qed
  from a b c show ?thesis by blast
qed

section \<open>Properties of frames\_to\_time\<close>




lemma double_ulp_pos: "0 < double_ulp x"
  by (simp add: double_ulp_def)


























section \<open>Properties of add\_clip\<close>

text \<open>
  C1 (amended). When a marker is missing or the tag text is empty, \<open>add_clip\<close> returns
  normally and leaves the window exactly as it was; no error is raised. When both markers
  are set, the tag text is not empty and \<open>clips\<close> is a list, it appends the clip with the
  markers as they were set, also when the end lies before the start (no swap), and clears
  both markers. It never raises \<open>ValidationError\<close>, and a call that raises leaves the
  window unchanged.
\<close>

theorem add_clip_silent_noop_no_swap:
  "(clip_start self = None \<or> clip_end self = None \<or> tag_text = [] \<longrightarrow>
      add_clip tag_text self = (None, self))
   \<and> (clip_start self = Some a \<and> clip_end self = Some b \<and> tag_text \<noteq> [] \<and> clips self = JArr cs \<longrightarrow>
      add_clip tag_text self
        = (None, self\<lparr>clips := JArr (cs @ [clip a b tag_text]),
                      clip_start := None, clip_end := None\<rparr>))
   \<and> fst (add_clip tag_text self) \<noteq> Some ValidationError
   \<and> (fst (add_clip tag_text self) \<noteq> None \<longrightarrow> snd (add_clip tag_text self) = self)"
  by (auto simp: add_clip_def split: option.splits json.splits)

text \<open>
  The statement of C1 at concrete windows: no marker, an empty tag text, markers out of
  order, and a clip list that is not a list.
\<close>

theorem add_clip_silent_noop_no_swap_witness:
  "add_clip ''Goal'' setup_video_playback = (None, setup_video_playback)
   \<and> add_clip [] (set_clip_end 50 (set_clip_start 120 setup_video_playback))
       = (None, set_clip_end 50 (set_clip_start 120 setup_video_playback))
   \<and> add_clip ''Goal'' (set_clip_end 50 (set_clip_start 120 setup_video_playback))
       = (None, setup_video_playback\<lparr>clips := JArr [clip 120 50 ''Goal'']\<rparr>)
   \<and> fst (add_clip ''Goal'' (set_clip_end 50 (set_clip_start 120 (setup_video_playback\<lparr>clips := JInt 5\<rparr>))))
       = Some AttributeError
   \<and> snd (add_clip ''Goal'' (set_clip_end 50 (set_clip_start 120 (setup_video_playback\<lparr>clips := JInt 5\<rparr>))))
       = set_clip_end 50 (set_clip_start 120 (setup_video_playback\<lparr>clips := JInt 5\<rparr>))"
proof -
  let ?m = "set_clip_end 50 (set_clip_start 120 setup_video_playback)"
  let ?bad = "set_clip_end 50 (set_clip_start 120 (setup_video_playback\<lparr>clips := JInt 5\<rparr>))"
  have h1: "clip_start setup_video_playback = None \<or> clip_end setup_video_playback = None
            \<or> ''Goal'' = []"
    by (simp add: setup_video_playback_def)
  have h2: "clip_start ?m = None \<or> clip_end ?m = None \<or> ([]::string) = []"
    by simp
  have h3: "clip_start ?m = Some 120 \<and> clip_end ?m = Some 50 \<and> ''Goal'' \<noteq> []
            \<and> clips ?m = JArr []"
    by (simp add: set_clip_start_def set_clip_end_def setup_video_playback_def)
  have h4: "fst (add_clip ''Goal'' ?bad) = Some AttributeError"
    by (simp add: add_clip_def set_clip_start_def set_clip_end_def setup_video_playback_def)
  have r1: "add_clip ''Goal'' setup_video_playback = (None, setup_video_playback)"
    using h1 add_clip_silent_noop_no_swap [of setup_video_playback "''Goal''"] by blast
  have r2: "add_clip [] ?m = (None, ?m)"
    using h2 add_clip_silent_noop_no_swap [of ?m "[]"] by blast
  have "add_clip ''Goal'' ?m
          = (None, ?m\<lparr>clips := JArr ([] @ [clip 120 50 ''Goal'']),
                       clip_start := None, clip_end := None\<rparr>)"
    using h3 add_clip_silent_noop_no_swap [of ?m "''Goal''" 120 50 "[]"] by blast
  then have r3: "add_clip ''Goal'' ?m = (None, setup_video_playback\<lparr>clips := JArr [clip 120 50 ''Goal'']\<rparr>)"
    by (simp add: set_clip_start_def set_clip_end_def setup_video_playback_def)
  have r4: "snd (add_clip ''Goal'' ?bad) = ?bad"
    using h4 add_clip_silent_noop_no_swap [of ?bad "''Goal''"] by simp
  from r1 r2 r3 h4 r4 show ?thesis by blast
qed

text \<open>
  C1 as stated fails: with no marker, or with an empty tag text, \<open>add_clip\<close> returns
  without an exception; with start 120 and end 50 it stores start 120 and end 50.
\<close>

theorem add_clip_counterexample:
  "fst (add_clip ''Goal'' setup_video_playback) = None
   \<and> fst (add_clip [] (set_clip_end 120 (set_clip_start 50 setup_video_playback))) = None
   \<and> clips (snd (add_clip ''Goal'' (set_clip_end 50 (set_clip_start 120 setup_video_playback))))
       = JArr [clip 120 50 ''Goal'']
   \<and> clips (snd (add_clip ''Goal'' (set_clip_end 50 (set_clip_start 120 setup_video_playback))))
       \<noteq> JArr [clip 50 120 ''Goal'']"
  by (simp add: add_clip_def set_clip_start_def set_clip_end_def setup_video_playback_def clip_def)

text \<open>
  C8 (amended). After the start marker 50 and the end marker 120, \<open>add_clip\<close> with the tag
  text \<open>Goal\<close> appends the clip \<open>{start: 50, end: 120, tag: "Goal"}\<close> at the end of the
  clip list and clears both markers; an immediately following \<open>add_clip\<close> returns
  normally, adds no clip and changes nothing.
\<close>

theorem commit_goal_then_noop:
  "clips self = JArr cs \<longrightarrow>
     add_clip ''Goal'' (set_clip_end 120 (set_clip_start 50 self))
       = (None, self\<lparr>clips := JArr (cs @ [clip 50 120 ''Goal'']),
                     clip_start := None, clip_end := None\<rparr>)
     \<and> clip 50 120 ''Goal'' = JObj [(''start'', JInt 50), (''end'', JInt 120), (''tag'', JStr ''Goal'')]
     \<and> add_clip tag_text (snd (add_clip ''Goal'' (set_clip_end 120 (set_clip_start 50 self))))
       = (None, snd (add_clip ''Goal'' (set_clip_end 120 (set_clip_start 50 self))))"
  by (simp add: add_clip_def set_clip_start_def set_clip_end_def clip_def)

text \<open>
  The statement of C8 on a new window, whose clip list is empty.
\<close>

theorem commit_goal_then_noop_witness:
  "clips setup_video_playback = JArr []
   \<and> add_clip ''Goal'' (set_clip_end 120 (set_clip_start 50 setup_video_playback))
       = (None, setup_video_playback\<lparr>clips := JArr [clip 50 120 ''Goal'']\<rparr>)
   \<and> add_clip ''Goal'' (setup_video_playback\<lparr>clips := JArr [clip 50 120 ''Goal'']\<rparr>)
       = (None, setup_video_playback\<lparr>clips := JArr [clip 50 120 ''Goal'']\<rparr>)"
proof -
  have h: "clips setup_video_playback = JArr []"
    by (simp add: setup_video_playback_def)
  have e: "setup_video_playback\<lparr>clips := JArr ([] @ [clip 50 120 ''Goal'']),
                     clip_start := None, clip_end := None\<rparr>
             = setup_video_playback\<lparr>clips := JArr [clip 50 120 ''Goal'']\<rparr>"
    by (simp add: setup_video_playback_def)
  from h commit_goal_then_noop [of setup_video_playback "[]" "''Goal''"]
  have first: "add_clip ''Goal'' (set_clip_end 120 (set_clip_start 50 setup_video_playback))
       = (None, setup_video_playback\<lparr>clips := JArr ([] @ [clip 50 120 ''Goal'']),
                     clip_start := None, clip_end := None\<rparr>)"
    and second: "add_clip ''Goal''
         (snd (add_clip ''Goal'' (set_clip_end 120 (set_clip_start 50 setup_video_playback))))
       = (None, snd (add_clip ''Goal'' (set_clip_end 120 (set_clip_start 50 setup_video_playback))))"
    by blast+
  have first': "add_clip ''Goal'' (set_clip_end 120 (set_clip_start 50 setup_video_playback))
       = (None, setup_video_playback\<lparr>clips := JArr [clip 50 120 ''Goal'']\<rparr>)"
    using first by (simp only: e)
  have second': "add_clip ''Goal'' (setup_video_playback\<lparr>clips := JArr [clip 50 120 ''Goal'']\<rparr>)
       = (None, setup_video_playback\<lparr>clips := JArr [clip 50 120 ''Goal'']\<rparr>)"
    using second by (simp only: first' snd_conv)
  from h first' second' show ?thesis by blast
qed

text \<open>
  C8 as stated fails in its last part: the second \<open>add_clip\<close> returns without an
  exception, so it does not fail with \<open>ValidationError\<close>.
\<close>

theorem commit_goal_then_noop_counterexample:
  "fst (add_clip ''Goal''
          (snd (add_clip ''Goal'' (set_clip_end 120 (set_clip_start 50 setup_video_playback))))) = None
   \<and> fst (add_clip ''Goal''
          (snd (add_clip ''Goal'' (set_clip_end 120 (set_clip_start 50 setup_video_playback)))))
       \<noteq> Some ValidationError"
  by (simp add: add_clip_def set_clip_start_def set_clip_end_def setup_video_playback_def)

section \<open>Properties of save\_data and load\_data\<close>

lemma load_data_dict:
  "path \<noteq> [] \<Longrightarrow> load_data path (JObj d) ucl self
     = (ucl, self\<lparr>clips := dict_get d ''clips'' (JArr [])\<rparr>)"
  by (simp add: load_data_def)

lemma load_data_not_dict:
  "path \<noteq> [] \<Longrightarrow> \<forall>d. data \<noteq> JObj d \<Longrightarrow> load_data path data ucl self = (Some AttributeError, self)"
  by (cases data) (simp_all add: load_data_def)

lemma load_data_video_path: "video_path (snd (load_data path data ucl self)) = video_path self"
  by (cases data) (simp_all add: load_data_def)

lemma save_data_doc:
  "video_path p \<noteq> [] \<Longrightarrow> path \<noteq> [] \<Longrightarrow>
     save_data path p = Some (JObj [(''video_path'', JStr (video_path p)), (''clips'', clips p)])"
  by (simp add: save_data_def)

text \<open>
  C2 (amended). For a window \<open>p\<close> with a video loaded, \<open>save_data\<close> writes a document
  from which \<open>load_data\<close> restores the clip list of \<open>p\<close> exactly. The video path is
  written but not read back: the loading window keeps its own, so the loaded project
  equals that of \<open>p\<close> when the loading window already has the video path of \<open>p\<close>.
  A window with an empty video path is not saved at all.
\<close>

theorem save_load_restores_clips_only:
  "(video_path p \<noteq> [] \<and> path \<noteq> [] \<and> path' \<noteq> [] \<longrightarrow>
      (\<exists>doc. save_data path p = Some doc
         \<and> load_data path' doc ucl self = (ucl, self\<lparr>clips := clips p\<rparr>)
         \<and> clips (snd (load_data path' doc ucl self)) = clips p
         \<and> video_path (snd (load_data path' doc ucl self)) = video_path self
         \<and> (video_path self = video_path p \<longrightarrow>
              project (snd (load_data path' doc ucl self)) = project p)))
   \<and> (video_path p = [] \<longrightarrow> save_data path p = None)"
proof -
  have a: "\<exists>doc. save_data path p = Some doc
         \<and> load_data path' doc ucl self = (ucl, self\<lparr>clips := clips p\<rparr>)
         \<and> clips (snd (load_data path' doc ucl self)) = clips p
         \<and> video_path (snd (load_data path' doc ucl self)) = video_path self
         \<and> (video_path self = video_path p \<longrightarrow>
              project (snd (load_data path' doc ucl self)) = project p)"
    if h: "video_path p \<noteq> [] \<and> path \<noteq> [] \<and> path' \<noteq> []"
  proof -
    let ?doc = "JObj [(''video_path'', JStr (video_path p)), (''clips'', clips p)]"
    have s: "save_data path p = Some ?doc"
      using h by (simp add: save_data_doc)
    have g: "dict_get [(''video_path'', JStr (video_path p)), (''clips'', clips p)] ''clips'' (JArr [])
               = clips p"
      by (simp add: dict_get_def)
    have l: "load_data path' ?doc ucl self = (ucl, self\<lparr>clips := clips p\<rparr>)"
      using h by (simp add: load_data_dict g)
    from s l show ?thesis
      by (intro exI [of _ ?doc]) (simp add: project_def)
  qed
  have b: "video_path p = [] \<longrightarrow> save_data path p = None"
    by (simp add: save_data_def)
  from a b show ?thesis by blast
qed

text \<open>
  The statement of C2 at a project with the video path \<open>match.mp4\<close> and three clips, and
  at a new window.
\<close>

theorem save_load_restores_clips_only_witness:
  "video_path (setup_video_playback\<lparr>video_path := ''match.mp4'',
       clips := JArr [clip 0 10 ''Goal'', clip 50 120 ''SetPiece'', clip 200 260 ''Goal'']\<rparr>) \<noteq> []
   \<and> (\<exists>doc. save_data ''p.json'' (setup_video_playback\<lparr>video_path := ''match.mp4'',
         clips := JArr [clip 0 10 ''Goal'', clip 50 120 ''SetPiece'', clip 200 260 ''Goal'']\<rparr>) = Some doc
        \<and> clips (snd (load_data ''p.json'' doc None (setup_video_playback\<lparr>video_path := ''match.mp4''\<rparr>)))
            = JArr [clip 0 10 ''Goal'', clip 50 120 ''SetPiece'', clip 200 260 ''Goal'']
        \<and> project (snd (load_data ''p.json'' doc None (setup_video_playback\<lparr>video_path := ''match.mp4''\<rparr>)))
            = (''match.mp4'', JArr [clip 0 10 ''Goal'', clip 50 120 ''SetPiece'', clip 200 260 ''Goal'']))
   \<and> video_path setup_video_playback = []
   \<and> save_data ''p.json'' setup_video_playback = None"
proof -
  let ?cs = "JArr [clip 0 10 ''Goal'', clip 50 120 ''SetPiece'', clip 200 260 ''Goal'']"
  let ?p = "setup_video_playback\<lparr>video_path := ''match.mp4'', clips := ?cs\<rparr>"
  let ?w = "setup_video_playback\<lparr>video_path := ''match.mp4''\<rparr>"
  have h: "video_path ?p \<noteq> [] \<and> ''p.json'' \<noteq> [] \<and> ''p.json'' \<noteq> []"
    by simp
  have same: "video_path ?w = video_path ?p"
    by simp
  have pr: "project ?p = (''match.mp4'', ?cs)" and cl: "clips ?p = ?cs"
    by (simp_all add: project_def)
  have e: "video_path setup_video_playback = []"
    by (simp add: setup_video_playback_def)
  from h same save_load_restores_clips_only [of ?p "''p.json''" "''p.json''" None ?w]
  have "\<exists>doc. save_data ''p.json'' ?p = Some doc
         \<and> clips (snd (load_data ''p.json'' doc None ?w)) = clips ?p
         \<and> project (snd (load_data ''p.json'' doc None ?w)) = project ?p"
    by blast
  then have r: "\<exists>doc. save_data ''p.json'' ?p = Some doc
         \<and> clips (snd (load_data ''p.json'' doc None ?w)) = ?cs
         \<and> project (snd (load_data ''p.json'' doc None ?w)) = (''match.mp4'', ?cs)"
    by (simp only: pr cl)
  from e save_load_restores_clips_only [of setup_video_playback "''p.json''" "''p.json''" None ?w]
  have n: "save_data ''p.json'' setup_video_playback = None"
    by blast
  from h r e n show ?thesis by blast
qed

text \<open>
  C2 as stated fails for the project with video path \<open>match.mp4\<close> and three clips, saved
  and loaded into a new window: the loaded project has the empty video path. A project
  with an empty video path and one clip is not written at all.
\<close>

theorem save_load_counterexample:
  "save_data ''p.json'' (setup_video_playback\<lparr>video_path := ''match.mp4'',
       clips := JArr [clip 0 10 ''Goal'', clip 50 120 ''SetPiece'', clip 200 260 ''Goal'']\<rparr>)
     = Some (JObj [(''video_path'', JStr ''match.mp4''),
                   (''clips'', JArr [clip 0 10 ''Goal'', clip 50 120 ''SetPiece'', clip 200 260 ''Goal''])])
   \<and> project (snd (load_data ''p.json''
        (JObj [(''video_path'', JStr ''match.mp4''),
               (''clips'', JArr [clip 0 10 ''Goal'', clip 50 120 ''SetPiece'', clip 200 260 ''Goal''])])
        None setup_video_playback))
     = ([], JArr [clip 0 10 ''Goal'', clip 50 120 ''SetPiece'', clip 200 260 ''Goal''])
   \<and> project (snd (load_data ''p.json''
        (JObj [(''video_path'', JStr ''match.mp4''),
               (''clips'', JArr [clip 0 10 ''Goal'', clip 50 120 ''SetPiece'', clip 200 260 ''Goal''])])
        None setup_video_playback))
     \<noteq> project (setup_video_playback\<lparr>video_path := ''match.mp4'',
          clips := JArr [clip 0 10 ''Goal'', clip 50 120 ''SetPiece'', clip 200 260 ''Goal'']\<rparr>)
   \<and> save_data ''p.json'' (setup_video_playback\<lparr>clips := JArr [clip 0 10 ''Goal'']\<rparr>) = None"
  by (simp add: save_data_def load_data_def dict_get_def project_def setup_video_playback_def)

text \<open>
  C6 (amended). With a file chosen, \<open>load_data\<close> reports a failure (an \<open>AttributeError\<close>
  caught and shown, not a \<open>FormatError\<close>) and leaves the window unchanged when the
  document is not an object. When it is an object, the value under \<open>clips\<close> is stored
  as it is, without any check of its shape, and a missing \<open>clips\<close> key gives the empty
  list. The video path is never read from the document: it keeps the value it had.
\<close>

theorem load_data_no_validation:
  "path \<noteq> [] \<longrightarrow>
     ((\<forall>d. data \<noteq> JObj d) \<longrightarrow> load_data path data ucl self = (Some AttributeError, self))
     \<and> (data = JObj d \<longrightarrow>
          load_data path data ucl self = (ucl, self\<lparr>clips := dict_get d ''clips'' (JArr [])\<rparr>)
          \<and> (map_of d ''clips'' = None \<longrightarrow> clips (snd (load_data path data ucl self)) = JArr [])
          \<and> (map_of d ''clips'' = Some v \<longrightarrow> clips (snd (load_data path data ucl self)) = v))
     \<and> video_path (snd (load_data path data ucl self)) = video_path self"
proof (intro impI)
  assume h: "path \<noteq> []"
  have a: "(\<forall>d. data \<noteq> JObj d) \<longrightarrow> load_data path data ucl self = (Some AttributeError, self)"
    using h by (simp add: load_data_not_dict)
  have b: "data = JObj d \<longrightarrow>
          load_data path data ucl self = (ucl, self\<lparr>clips := dict_get d ''clips'' (JArr [])\<rparr>)
          \<and> (map_of d ''clips'' = None \<longrightarrow> clips (snd (load_data path data ucl self)) = JArr [])
          \<and> (map_of d ''clips'' = Some v \<longrightarrow> clips (snd (load_data path data ucl self)) = v)"
    using h by (simp add: load_data_dict dict_get_def)
  have c: "video_path (snd (load_data path data ucl self)) = video_path self"
    by (rule load_data_video_path)
  from a b c show "((\<forall>d. data \<noteq> JObj d) \<longrightarrow> load_data path data ucl self = (Some AttributeError, self))
     \<and> (data = JObj d \<longrightarrow>
          load_data path data ucl self = (ucl, self\<lparr>clips := dict_get d ''clips'' (JArr [])\<rparr>)
          \<and> (map_of d ''clips'' = None \<longrightarrow> clips (snd (load_data path data ucl self)) = JArr [])
          \<and> (map_of d ''clips'' = Some v \<longrightarrow> clips (snd (load_data path data ucl self)) = v))
     \<and> video_path (snd (load_data path data ucl self)) = video_path self"
    by blast
qed

text \<open>
  The statement of C6 at a document that is an array, at one without a \<open>clips\<close> key and
  at one whose \<open>clips\<close> is a string.
\<close>

theorem load_data_no_validation_witness:
  "''p.json'' \<noteq> []
   \<and> load_data ''p.json'' (JArr []) None setup_video_playback = (Some AttributeError, setup_video_playback)
   \<and> clips (snd (load_data ''p.json'' (JObj [(''video_path'', JStr ''x.mp4'')]) None
        (setup_video_playback\<lparr>clips := JArr [clip 1 2 ''Goal'']\<rparr>))) = JArr []
   \<and> clips (snd (load_data ''p.json'' (JObj [(''clips'', JStr ''oops'')]) None setup_video_playback))
       = JStr ''oops''"
proof -
  have h: "''p.json'' \<noteq> []"
    by simp
  have nd: "\<forall>d. JArr [] \<noteq> JObj d"
    by simp
  have m1: "map_of [(''video_path'', JStr ''x.mp4'')] ''clips'' = None"
    by simp
  have m2: "map_of [(''clips'', JStr ''oops'')] ''clips'' = Some (JStr ''oops'')"
    by simp
  have r1: "load_data ''p.json'' (JArr []) None setup_video_playback
              = (Some AttributeError, setup_video_playback)"
    using h nd load_data_no_validation [of "''p.json''" "JArr []" None setup_video_playback]
    by blast
  have r2: "clips (snd (load_data ''p.json'' (JObj [(''video_path'', JStr ''x.mp4'')]) None
        (setup_video_playback\<lparr>clips := JArr [clip 1 2 ''Goal'']\<rparr>))) = JArr []"
    using h m1 load_data_no_validation [of "''p.json''" "JObj [(''video_path'', JStr ''x.mp4'')]"
        None "setup_video_playback\<lparr>clips := JArr [clip 1 2 ''Goal'']\<rparr>"
        "[(''video_path'', JStr ''x.mp4'')]"]
    by blast
  have r3: "clips (snd (load_data ''p.json'' (JObj [(''clips'', JStr ''oops'')]) None setup_video_playback))
       = JStr ''oops''"
    using h m2 load_data_no_validation [of "''p.json''" "JObj [(''clips'', JStr ''oops'')]"
        None setup_video_playback "[(''clips'', JStr ''oops'')]" "JStr ''oops''"]
    by blast
  from h r1 r2 r3 show ?thesis by blast
qed

text \<open>
  C6 as stated fails: the document \<open>{"clips": 5}\<close> is accepted and 5 becomes the clip
  list (it is stored even if the refresh of the list widget raises afterwards), and the
  empty document leaves the video path \<open>a.mp4\<close> of the window in place.
\<close>

theorem load_data_counterexample:
  "load_data ''p.json'' (JObj [(''clips'', JInt 5)]) None setup_video_playback
     = (None, setup_video_playback\<lparr>clips := JInt 5\<rparr>)
   \<and> clips (snd (load_data ''p.json'' (JObj [(''clips'', JInt 5)]) (Some AttributeError)
        setup_video_playback)) = JInt 5
   \<and> video_path (snd (load_data ''p.json'' (JObj []) None
        (setup_video_playback\<lparr>video_path := ''a.mp4''\<rparr>))) = ''a.mp4''
   \<and> fst (load_data ''p.json'' JNull None setup_video_playback) = Some AttributeError"
  by (simp add: load_data_def dict_get_def)

section \<open>Properties of the reset operations and of the playback cursor\<close>

text \<open>
  C7 at a window that has played a video with 25 frames per second up to frame 100:
  \<open>new_project\<close> leaves \<open>fps\<close> at 25 (the initial value is 30), and \<open>open_video\<close>
  leaves \<open>current_frame\<close> at 100 and \<open>playing\<close> as it was, while the shadowed first
  definition of \<open>open_video\<close> resets \<open>current_frame\<close> to 0.
\<close>

theorem reset_leaves_fps_and_frame:
  "fps setup_video_playback = PyInt 30
   \<and> fps (new_project
        \<lparr>cap = Some \<lparr>CAP_PROP_FRAME_COUNT = 1000, CAP_PROP_FPS = Finite 25\<rparr>, video_path = ''a.mp4'',
         total_frames = 1000, fps = PyFloat (Finite 25), current_frame = 100, playing = True,
         clips = JArr [], clip_start = None, clip_end = None\<rparr>) = PyFloat (Finite 25)
   \<and> current_frame (open_video ''b.mp4'' \<lparr>CAP_PROP_FRAME_COUNT = 500, CAP_PROP_FPS = Finite 30\<rparr> None
        \<lparr>cap = Some \<lparr>CAP_PROP_FRAME_COUNT = 1000, CAP_PROP_FPS = Finite 25\<rparr>, video_path = ''a.mp4'',
         total_frames = 1000, fps = PyFloat (Finite 25), current_frame = 100, playing = False,
         clips = JArr [], clip_start = None, clip_end = None\<rparr>) = 100
   \<and> current_frame (open_video_shadowed ''b.mp4'' \<lparr>CAP_PROP_FRAME_COUNT = 500, CAP_PROP_FPS = Finite 30\<rparr> None
        \<lparr>cap = Some \<lparr>CAP_PROP_FRAME_COUNT = 1000, CAP_PROP_FPS = Finite 25\<rparr>, video_path = ''a.mp4'',
         total_frames = 1000, fps = PyFloat (Finite 25), current_frame = 100, playing = False,
         clips = JArr [], clip_start = None, clip_end = None\<rparr>) = 0
   \<and> playing (open_video ''b.mp4'' \<lparr>CAP_PROP_FRAME_COUNT = 500, CAP_PROP_FPS = Finite 30\<rparr> None
        \<lparr>cap = Some \<lparr>CAP_PROP_FRAME_COUNT = 1000, CAP_PROP_FPS = Finite 25\<rparr>, video_path = ''a.mp4'',
         total_frames = 1000, fps = PyFloat (Finite 25), current_frame = 100, playing = True,
         clips = JArr [], clip_start = None, clip_end = None\<rparr>) = True"
  by (simp add: setup_video_playback_def new_project_def open_video_def open_video_shadowed_def
      update_frame_def)

lemma cursor_step_range:
  "0 \<le> total_frames self \<Longrightarrow>
     total_frames (cursor_step c self) = total_frames self
     \<and> 0 \<le> current_frame (cursor_step c self)
     \<and> current_frame (cursor_step c self) \<le> total_frames self"
  by (cases c) (simp_all add: seek_video_def next_frame_def prev_frame_def clamp_frame_def)

lemma cursor_run_range:
  "0 \<le> total_frames self \<Longrightarrow> 0 \<le> current_frame self \<Longrightarrow> current_frame self \<le> total_frames self \<Longrightarrow>
     total_frames (cursor_run cs self) = total_frames self
     \<and> 0 \<le> current_frame (cursor_run cs self)
     \<and> current_frame (cursor_run cs self) \<le> total_frames self"
proof (induction cs arbitrary: self)
  case Nil
  then show ?case by simp
next
  case (Cons c cs)
  from cursor_step_range [OF Cons.prems(1), of c]
  have st: "total_frames (cursor_step c self) = total_frames self"
    and lo: "0 \<le> current_frame (cursor_step c self)"
    and hi: "current_frame (cursor_step c self) \<le> total_frames self"
    by simp_all
  have "total_frames (cursor_run cs (cursor_step c self)) = total_frames (cursor_step c self)
     \<and> 0 \<le> current_frame (cursor_run cs (cursor_step c self))
     \<and> current_frame (cursor_run cs (cursor_step c self)) \<le> total_frames (cursor_step c self)"
    using Cons.prems(1) st lo hi by (intro Cons.IH) simp_all
  then show ?case by (simp add: st)
qed

text \<open>
  C9. From a window whose \<open>current_frame\<close> lies in \<open>[0, total_frames]\<close>, every sequence
  of \<open>seek_video\<close>, \<open>next_frame\<close> and \<open>prev_frame\<close> calls leaves it in that interval
  and leaves \<open>total_frames\<close> as it was; one step moves it by one unless it is at the
  bound, and \<open>seek_video\<close> clamps its argument.
\<close>

theorem cursor_stays_in_range:
  "0 \<le> total_frames self \<and> 0 \<le> current_frame self \<and> current_frame self \<le> total_frames self \<longrightarrow>
     0 \<le> current_frame (cursor_run calls self)
     \<and> current_frame (cursor_run calls self) \<le> total_frames self
     \<and> total_frames (cursor_run calls self) = total_frames self
     \<and> current_frame (next_frame self) = min (total_frames self) (current_frame self + 1)
     \<and> current_frame (prev_frame self) = max 0 (current_frame self - 1)
     \<and> current_frame (seek_video frame self) = max 0 (min (total_frames self) frame)"
proof (intro impI)
  assume h: "0 \<le> total_frames self \<and> 0 \<le> current_frame self \<and> current_frame self \<le> total_frames self"
  have r: "total_frames (cursor_run calls self) = total_frames self
     \<and> 0 \<le> current_frame (cursor_run calls self)
     \<and> current_frame (cursor_run calls self) \<le> total_frames self"
    using h by (intro cursor_run_range) simp_all
  have n: "current_frame (next_frame self) = min (total_frames self) (current_frame self + 1)"
    using h by (simp add: next_frame_def clamp_frame_def)
  have p: "current_frame (prev_frame self) = max 0 (current_frame self - 1)"
    using h by (simp add: prev_frame_def clamp_frame_def)
  have s: "current_frame (seek_video frame self) = max 0 (min (total_frames self) frame)"
    using h by (simp add: seek_video_def clamp_frame_def)
  from r n p s show "0 \<le> current_frame (cursor_run calls self)
     \<and> current_frame (cursor_run calls self) \<le> total_frames self
     \<and> total_frames (cursor_run calls self) = total_frames self
     \<and> current_frame (next_frame self) = min (total_frames self) (current_frame self + 1)
     \<and> current_frame (prev_frame self) = max 0 (current_frame self - 1)
     \<and> current_frame (seek_video frame self) = max 0 (min (total_frames self) frame)"
    by blast
qed

text \<open>
  The statement of C9 at a video of 10 frames and a sequence of calls that hits both
  bounds.
\<close>

theorem cursor_stays_in_range_witness:
  "0 \<le> total_frames (setup_video_playback\<lparr>total_frames := 10\<rparr>)
   \<and> 0 \<le> current_frame (setup_video_playback\<lparr>total_frames := 10\<rparr>)
   \<and> current_frame (setup_video_playback\<lparr>total_frames := 10\<rparr>)
       \<le> total_frames (setup_video_playback\<lparr>total_frames := 10\<rparr>)
   \<and> current_frame (cursor_run [Seek 25, Next, Prev, Prev, Seek (- 3), Prev, Next]
        (setup_video_playback\<lparr>total_frames := 10\<rparr>)) = 1
   \<and> 0 \<le> current_frame (cursor_run [Seek 25, Next, Prev, Prev, Seek (- 3), Prev, Next]
        (setup_video_playback\<lparr>total_frames := 10\<rparr>))
   \<and> current_frame (cursor_run [Seek 25, Next, Prev, Prev, Seek (- 3), Prev, Next]
        (setup_video_playback\<lparr>total_frames := 10\<rparr>)) \<le> 10"
proof -
  let ?s = "setup_video_playback\<lparr>total_frames := 10\<rparr>"
  let ?cs = "[Seek 25, Next, Prev, Prev, Seek (- 3), Prev, Next]"
  have h: "0 \<le> total_frames ?s \<and> 0 \<le> current_frame ?s \<and> current_frame ?s \<le> total_frames ?s"
    by (simp add: setup_video_playback_def)
  have t: "total_frames ?s = 10"
    by simp
  have v: "current_frame (cursor_run ?cs ?s) = 1"
    by (simp add: setup_video_playback_def seek_video_def next_frame_def prev_frame_def
        clamp_frame_def)
  from h cursor_stays_in_range [of ?s ?cs 0]
  have "0 \<le> current_frame (cursor_run ?cs ?s) \<and> current_frame (cursor_run ?cs ?s) \<le> total_frames ?s"
    by blast
  then have r: "0 \<le> current_frame (cursor_run ?cs ?s) \<and> current_frame (cursor_run ?cs ?s) \<le> 10"
    by (simp only: t)
  from h v r show ?thesis by blast
qed

end
